theory Spec2Isabelle
  imports Main
begin

section \<open>Data model of \<open>services/geminiService.ts\<close> and \<open>App.tsx\<close>\<close>

text \<open>
  The staged generation orchestrator (\<open>generateVirtualStaging\<close>), its caller
  (\<open>handleGenerate\<close>) and the model capability prober (\<open>listAvailableModels\<close>,
  \<open>testImageGenerationModel\<close>, \<open>testAllModelsForImageGeneration\<close>) are embedded as
  HOL functions. Every asynchronous call of the source is awaited before the next statement
  runs, so a run is a sequence of steps over an explicit state \<open>'w\<close> of the outside world
  (the remote service and the clock). A \<open>throw\<close> or a rejected promise is the \<open>Inl\<close>
  branch of a sum.
\<close>

datatype LoadingStep = idle | analyzingStyle | analyzingPlan | generatingImage

text \<open>
  A value caught by \<open>catch (err)\<close>. The source tests \<open>err instanceof Error\<close> in every
  handler, so both kinds of thrown value are kept apart: an \<open>Error\<close> with its
  \<open>message\<close>, and any other thrown value.
\<close>

datatype thrown = Error string | NonError

record File =
  file_type :: string
  file_bytes :: string

text \<open>
  Modelled from the spec: the type declarations of the SDK (\<open>Part\<close>, \<open>Blob\<close>,
  \<open>Content\<close>, the request and the response of \<open>generateContent\<close>, the \<open>Model\<close>
  descriptor) are not part of the repository. Section 6 of the specification gives a part
  as text or an inline binary with its media type, a response as an optional text and an
  ordered sequence of content parts, and a model as an identifier with its advertised
  generation methods. The optional fields that the source reads through \<open>?.\<close> are
  options here.
\<close>

record Blob =
  data :: string
  mimeType :: string

record Part =
  part_text :: "string option"
  inlineData :: "Blob option"

record Content =
  parts :: "Part list option"

text \<open>
  \<open>contents\<close> is an array of contents in the first two requests of the orchestrator and
  a single content object in the third one and in the probe.
\<close>

datatype ContentUnion = ContentArray "Content list" | ContentObject Content

record GenerateContentParameters =
  req_model :: string
  contents :: ContentUnion

record Candidate =
  content :: "Content option"

record GenerateContentResponse =
  response_text :: "string option"
  candidates :: "Candidate list option"

record Model =
  name :: string
  supportedGenerationMethods :: "string list"

text \<open>
  What the module imports and the globals it reads. The remote calls take the state of the
  world and return it changed, together with the response or the thrown value.
  \<open>fileToBase64\<close> (\<open>utils/fileUtils\<close>) is not part of the repository; it is a
  parameter, total as section 6 of the specification assumes of the image encoder. The
  prompt texts of \<open>constants.ts\<close> are opaque to the control flow and are parameters as
  well.
\<close>

record 'w deps =
  generateContent :: "GenerateContentParameters \<Rightarrow> 'w \<Rightarrow> (thrown + GenerateContentResponse) \<times> 'w"
  models_list :: "'w \<Rightarrow> (thrown + Model list) \<times> 'w"
  Date_now :: "'w \<Rightarrow> int"
  fileToBase64 :: "File \<Rightarrow> string"
  STYLE_EXTRACTION_PROMPT :: string
  FLOOR_PLAN_ANALYSIS_PROMPT :: string
  getFinalPromptTemplate :: "string \<Rightarrow> string \<Rightarrow> string"

text \<open>
  What a run does that its caller can observe, in the order in which it happens: the calls
  of the two callbacks, the requests sent to the generation client and the listing calls.
\<close>

datatype event =
    SetLoadingStep LoadingStep
  | GenerateContent GenerateContentParameters
  | ListModels
  | OnResult string

section \<open>The staged generation orchestrator\<close>

definition model :: string where
  "model = ''gemini-3-pro-image-preview''"

definition fileToGenerativePart :: "'w deps \<Rightarrow> File \<Rightarrow> Part" where
  "fileToGenerativePart d file =
     \<lparr>part_text = None,
      inlineData = Some \<lparr>data = fileToBase64 d file, mimeType = file_type file\<rparr>\<rparr>"

definition textPart :: "string \<Rightarrow> Part" where
  "textPart t = \<lparr>part_text = Some t, inlineData = None\<rparr>"

text \<open>The three requests, as the object literals of the source build them.\<close>

definition styleRequest :: "'w deps \<Rightarrow> File \<Rightarrow> GenerateContentParameters" where
  "styleRequest d referenceImageFile =
     \<lparr>req_model = model,
      contents = ContentArray
        [\<lparr>parts = Some [textPart (STYLE_EXTRACTION_PROMPT d),
                         fileToGenerativePart d referenceImageFile]\<rparr>]\<rparr>"

definition floorPlanRequest :: "'w deps \<Rightarrow> File \<Rightarrow> GenerateContentParameters" where
  "floorPlanRequest d floorPlanFile =
     \<lparr>req_model = model,
      contents = ContentArray
        [\<lparr>parts = Some [textPart (FLOOR_PLAN_ANALYSIS_PROMPT d),
                         fileToGenerativePart d floorPlanFile]\<rparr>]\<rparr>"

definition finalRequest :: "'w deps \<Rightarrow> File \<Rightarrow> string \<Rightarrow> string \<Rightarrow> GenerateContentParameters" where
  "finalRequest d floorPlanFile styleDescription floorPlanAnalysis =
     \<lparr>req_model = model,
      contents = ContentObject
        \<lparr>parts = Some [fileToGenerativePart d floorPlanFile,
                        textPart (getFinalPromptTemplate d styleDescription floorPlanAnalysis)]\<rparr>\<rparr>"

text \<open>
  \<open>!s\<close> for \<open>s\<close> of type \<open>string | undefined\<close>: true for \<open>undefined\<close> and for the
  empty string. Past the check the text is read with \<open>the\<close>, which is only ever applied
  to a \<open>Some\<close> there.
\<close>

definition falsy :: "string option \<Rightarrow> bool" where
  "falsy s = (case s of None \<Rightarrow> True | Some t \<Rightarrow> t = [])"

text \<open>\<open>response.candidates?.[0]?.content?.parts\<close>: \<open>undefined\<close> where the chain breaks.\<close>

definition candidateParts :: "GenerateContentResponse \<Rightarrow> Part list option" where
  "candidateParts response =
     (case candidates response of
        None \<Rightarrow> None
      | Some cs \<Rightarrow>
          (case cs of
             [] \<Rightarrow> None
           | c # _ \<Rightarrow> (case content c of None \<Rightarrow> None | Some ct \<Rightarrow> parts ct)))"

text \<open>\<open>... || []\<close>: an array, also an empty one, is truthy.\<close>

definition partsOrEmpty :: "GenerateContentResponse \<Rightarrow> Part list" where
  "partsOrEmpty response = (case candidateParts response of None \<Rightarrow> [] | Some ps \<Rightarrow> ps)"

definition dataUri :: "Blob \<Rightarrow> string" where
  "dataUri b = ''data:'' @ mimeType b @ '';base64,'' @ data b"

text \<open>
  The \<open>for ... of\<close> loop that extracts the generated image: the argument of
  \<open>onResult\<close> at the first part whose \<open>inlineData\<close> is set, \<open>None\<close> when the loop
  runs to its end.
\<close>

fun extractImage :: "Part list \<Rightarrow> string option" where
  "extractImage [] = None"
| "extractImage (part # rest) =
     (case inlineData part of
        Some b \<Rightarrow> Some (dataUri b)
      | None \<Rightarrow> extractImage rest)"

definition generateVirtualStaging ::
  "'w deps \<Rightarrow> File \<Rightarrow> File \<Rightarrow> 'w \<Rightarrow> (thrown + unit) \<times> event list \<times> 'w" where
  "generateVirtualStaging d floorPlanFile referenceImageFile w0 =
     (let tr1 = [SetLoadingStep analyzingStyle,
                 GenerateContent (styleRequest d referenceImageFile)];
          (styleResult, w1) = generateContent d (styleRequest d referenceImageFile) w0
      in case styleResult of
           Inl err \<Rightarrow> (Inl err, tr1, w1)
         | Inr styleResponse \<Rightarrow>
      if falsy (response_text styleResponse)
      then (Inl (Error ''Could not extract style from reference image.''), tr1, w1)
      else
     (let styleDescription = the (response_text styleResponse);
          tr2 = tr1 @ [SetLoadingStep analyzingPlan,
                       GenerateContent (floorPlanRequest d floorPlanFile)];
          (floorPlanResult, w2) = generateContent d (floorPlanRequest d floorPlanFile) w1
      in case floorPlanResult of
           Inl err \<Rightarrow> (Inl err, tr2, w2)
         | Inr floorPlanResponse \<Rightarrow>
      if falsy (response_text floorPlanResponse)
      then (Inl (Error ''Could not analyze the floor plan image.''), tr2, w2)
      else
     (let floorPlanAnalysis = the (response_text floorPlanResponse);
          finalReq = finalRequest d floorPlanFile styleDescription floorPlanAnalysis;
          tr3 = tr2 @ [SetLoadingStep generatingImage, GenerateContent finalReq];
          (finalResult, w3) = generateContent d finalReq w2
      in case finalResult of
           Inl err \<Rightarrow> (Inl err, tr3, w3)
         | Inr finalResponse \<Rightarrow>
             (case extractImage (partsOrEmpty finalResponse) of
                Some uri \<Rightarrow> (Inr (), tr3 @ [OnResult uri], w3)
              | None \<Rightarrow>
                  (Inl (Error ''No image was generated. The model may have refused the request.''),
                   tr3, w3)))))"

text \<open>The failures of the specification's taxonomy, as the source raises them.\<close>

definition StyleExtractionFailed :: thrown where
  "StyleExtractionFailed = Error ''Could not extract style from reference image.''"

definition PlanAnalysisFailed :: thrown where
  "PlanAnalysisFailed = Error ''Could not analyze the floor plan image.''"

definition NoImageProduced :: thrown where
  "NoImageProduced = Error ''No image was generated. The model may have refused the request.''"

definition InputMissing :: string where
  "InputMissing = ''Please upload both a floor plan and a reference image.''"

section \<open>The caller: \<open>handleGenerate\<close> of \<open>App.tsx\<close>\<close>

record AppState =
  floorPlanImage :: "File option"
  referenceImage :: "File option"
  generatedImage :: "string option"
  loadingStep :: LoadingStep
  app_error :: "string option"

text \<open>
  The two callbacks that \<open>handleGenerate\<close> passes: \<open>setLoadingStep\<close> itself, and an
  arrow function that stores the image and sets the step back to \<open>idle\<close>. A request to
  the generation client does not touch the state of the component.
\<close>

fun consume :: "AppState \<Rightarrow> event \<Rightarrow> AppState" where
  "consume s (SetLoadingStep step) = s\<lparr>loadingStep := step\<rparr>"
| "consume s (OnResult imageResult) = s\<lparr>generatedImage := Some imageResult, loadingStep := idle\<rparr>"
| "consume s (GenerateContent _) = s"
| "consume s ListModels = s"

text \<open>\<open>err instanceof Error ? err.message : fallback\<close>\<close>

definition messageOr :: "string \<Rightarrow> thrown \<Rightarrow> string" where
  "messageOr fallback err = (case err of Error m \<Rightarrow> m | NonError \<Rightarrow> fallback)"

definition handleGenerate :: "'w deps \<Rightarrow> AppState \<Rightarrow> 'w \<Rightarrow> AppState \<times> event list \<times> 'w" where
  "handleGenerate d s w =
     (case (floorPlanImage s, referenceImage s) of
        (Some floorPlanFile, Some referenceImageFile) \<Rightarrow>
          (let s1 = s\<lparr>app_error := None, generatedImage := None\<rparr>;
               (result, tr, w') = generateVirtualStaging d floorPlanFile referenceImageFile w;
               s2 = foldl consume s1 tr
           in case result of
                Inr _ \<Rightarrow> (s2, tr, w')
              | Inl err \<Rightarrow>
                  (s2\<lparr>app_error := Some (messageOr ''An unknown error occurred.'' err),
                      loadingStep := idle\<rparr>, tr, w'))
      | _ \<Rightarrow> (s\<lparr>app_error := Some ''Please upload both a floor plan and a reference image.''\<rparr>, [], w))"

section \<open>The model capability prober\<close>

text \<open>\<open>s.startsWith(p)\<close>\<close>

definition startsWith :: "string \<Rightarrow> string \<Rightarrow> bool" where
  "startsWith s p = (take (length p) s = p)"

text \<open>
  The loop of \<open>listAvailableModels\<close>: the name of every model whose generation methods
  include \<open>generateContent\<close> is pushed onto \<open>modelNames\<close>.
\<close>

fun pushNames :: "Model list \<Rightarrow> string list \<Rightarrow> string list" where
  "pushNames [] modelNames = modelNames"
| "pushNames (m # rest) modelNames =
     pushNames rest
       (if ''generateContent'' \<in> set (supportedGenerationMethods m)
        then modelNames @ [name m] else modelNames)"

definition listAvailableModels :: "'w deps \<Rightarrow> 'w \<Rightarrow> string list \<times> event list \<times> 'w" where
  "listAvailableModels d w =
     (let (result, w') = models_list d w
      in case result of
           Inr models \<Rightarrow>
             (let modelNames = pushNames models []
              in if length modelNames = 0
                 then ([''No models supporting 'generateContent' found for your API key.''],
                       [ListModels], w')
                 else (modelNames, [ListModels], w'))
         | Inl err \<Rightarrow>
             (case err of
                Error m \<Rightarrow> ([''Error listing models: '' @ m], [ListModels], w')
              | NonError \<Rightarrow>
                  ([''An unknown error occurred while listing models.''], [ListModels], w')))"

record ModelTestResult =
  modelName :: string
  supportsImageGeneration :: bool
  error :: "string option"
  responseTime :: "int option"

definition testPrompt :: string where
  "testPrompt = ''Generate a simple geometric shape: a blue circle on a white background.''"

definition probeRequest :: "string \<Rightarrow> GenerateContentParameters" where
  "probeRequest m =
     \<lparr>req_model = m, contents = ContentObject \<lparr>parts = Some [textPart testPrompt]\<rparr>\<rparr>"

text \<open>
  \<open>response.candidates?.[0]?.content?.parts?.some(part => part.inlineData !== undefined)\<close>:
  \<open>undefined\<close> where the chain breaks, a boolean otherwise.
\<close>

definition hasImage :: "GenerateContentResponse \<Rightarrow> bool option" where
  "hasImage response =
     map_option (list_ex (\<lambda>part. inlineData part \<noteq> None)) (candidateParts response)"

definition testImageGenerationModel ::
  "'w deps \<Rightarrow> string \<Rightarrow> 'w \<Rightarrow> ModelTestResult \<times> event list \<times> 'w" where
  "testImageGenerationModel d m w =
     (let startTime = Date_now d w;
          (result, w') = generateContent d (probeRequest m) w
      in case result of
           Inr response \<Rightarrow>
             (let elapsed = Date_now d w' - startTime
              in if hasImage response = Some True
                 then (\<lparr>modelName = m, supportsImageGeneration = True,
                        error = None, responseTime = Some elapsed\<rparr>,
                       [GenerateContent (probeRequest m)], w')
                 else (\<lparr>modelName = m, supportsImageGeneration = False,
                        error = Some ''Model responded but did not generate an image'',
                        responseTime = Some elapsed\<rparr>,
                       [GenerateContent (probeRequest m)], w'))
         | Inl err \<Rightarrow>
             (let elapsed = Date_now d w' - startTime
              in (\<lparr>modelName = m, supportsImageGeneration = False,
                   error = Some (messageOr ''Unknown error'' err),
                   responseTime = Some elapsed\<rparr>,
                  [GenerateContent (probeRequest m)], w')))"

text \<open>
  The loop of \<open>testAllModelsForImageGeneration\<close>: one probe after the other, each
  starting in the world that the one before left, its result pushed onto \<open>results\<close>.
\<close>

fun probeEach ::
  "'w deps \<Rightarrow> string list \<Rightarrow> ModelTestResult list \<Rightarrow> event list \<Rightarrow> 'w
     \<Rightarrow> ModelTestResult list \<times> event list \<times> 'w" where
  "probeEach d [] results tr w = (results, tr, w)"
| "probeEach d (m # rest) results tr w =
     (let (result, tr', w') = testImageGenerationModel d m w
      in probeEach d rest (results @ [result]) (tr @ tr') w')"

definition isValidModel :: "string \<Rightarrow> bool" where
  "isValidModel m = (\<not> startsWith m ''Error'' \<and> \<not> startsWith m ''No models'')"

definition testAllModelsForImageGeneration ::
  "'w deps \<Rightarrow> 'w \<Rightarrow> ModelTestResult list \<times> event list \<times> 'w" where
  "testAllModelsForImageGeneration d w =
     (let (models, tr, w') = listAvailableModels d w;
          validModels = filter isValidModel models
      in if length validModels = 0 then ([], tr, w')
         else probeEach d validModels [] tr w')"

section \<open>Notions used to state the properties\<close>

text \<open>
  The first part that carries inline binary data, as the specification words it: the head
  of the parts that have \<open>inlineData\<close>, in the order of the response.
\<close>

definition firstInline :: "Part list \<Rightarrow> Blob option" where
  "firstInline ps =
     (case filter (\<lambda>p. inlineData p \<noteq> None) ps of [] \<Rightarrow> None | p # _ \<Rightarrow> inlineData p)"

text \<open>A model advertises content-generation support.\<close>

definition advertisesGenerateContent :: "Model \<Rightarrow> bool" where
  "advertisesGenerateContent m = (''generateContent'' \<in> set (supportedGenerationMethods m))"

text \<open>The number of requests that a run sent to the generation client.\<close>

definition generationCalls :: "event list \<Rightarrow> nat" where
  "generationCalls tr =
     length (filter (\<lambda>e. case e of GenerateContent _ \<Rightarrow> True | _ \<Rightarrow> False) tr)"



section \<open>Generation-client doubles\<close>

text \<open>
  Test doubles of the generation client. The world is the number of remote calls made so
  far; the clock reads \<open>100 * n * n\<close> milliseconds after \<open>n\<close> calls, so that two
  probes take different times. \<open>gen\<close> answers a generation request from the request and
  the number of earlier calls, \<open>listing\<close> is the answer of the listing call.
\<close>

definition double ::
  "(GenerateContentParameters \<Rightarrow> nat \<Rightarrow> thrown + GenerateContentResponse)
     \<Rightarrow> (thrown + Model list) \<Rightarrow> nat deps" where
  "double gen listing =
     \<lparr>generateContent = (\<lambda>req n. (gen req n, n + 1)),
      models_list = (\<lambda>n. (listing, n + 1)),
      Date_now = (\<lambda>n. 100 * int n * int n),
      fileToBase64 = file_bytes,
      STYLE_EXTRACTION_PROMPT = ''Describe the style.'',
      FLOOR_PLAN_ANALYSIS_PROMPT = ''Describe the plan.'',
      getFinalPromptTemplate = (\<lambda>style plan. style @ '' / '' @ plan)\<rparr>"

definition textResponse :: "string \<Rightarrow> GenerateContentResponse" where
  "textResponse t =
     \<lparr>response_text = Some t,
      candidates = Some [\<lparr>content = Some \<lparr>parts = Some [textPart t]\<rparr>\<rparr>]\<rparr>"

definition imagePart :: "string \<Rightarrow> string \<Rightarrow> Part" where
  "imagePart mime bytes = \<lparr>part_text = None, inlineData = Some \<lparr>data = bytes, mimeType = mime\<rparr>\<rparr>"

definition partsResponse :: "string option \<Rightarrow> Part list \<Rightarrow> GenerateContentResponse" where
  "partsResponse t ps =
     \<lparr>response_text = t, candidates = Some [\<lparr>content = Some \<lparr>parts = Some ps\<rparr>\<rparr>]\<rparr>"

text \<open>
  The client of the first end-to-end scenario: the first call answers the style, the
  second the analysis of the plan, every later call answers \<open>third\<close>.
\<close>

definition stagedClient :: "thrown + GenerateContentResponse \<Rightarrow> nat deps" where
  "stagedClient third =
     double (\<lambda>req n. if n = 0 then Inr (textResponse ''minimalist, oak floors'')
                      else if n = 1 then Inr (textResponse ''2-bedroom, L-shaped'')
                      else third)
            (Inr [])"

text \<open>Four third answers: one image, a text with two images, a refusal in words, a rejection.\<close>

definition renderResponse :: GenerateContentResponse where
  "renderResponse = partsResponse None [imagePart ''image/png'' ''WA=='']"

definition chattyResponse :: GenerateContentResponse where
  "chattyResponse =
     partsResponse (Some ''Here it is.'')
       [textPart ''Here it is.'', imagePart ''image/png'' ''WA=='', imagePart ''image/jpeg'' ''WQ=='']"

definition renderingClient :: "nat deps" where
  "renderingClient = stagedClient (Inr renderResponse)"

definition chattyClient :: "nat deps" where
  "chattyClient = stagedClient (Inr chattyResponse)"

definition refusingClient :: "nat deps" where
  "refusingClient = stagedClient (Inr (textResponse ''I cannot draw this.''))"

definition throttledClient :: "nat deps" where
  "throttledClient = stagedClient (Inl (Error ''429 quota exceeded''))"

text \<open>A client whose every generation call answers an empty text.\<close>

definition silentClient :: "nat deps" where
  "silentClient = double (\<lambda>req n. Inr \<lparr>response_text = Some [], candidates = None\<rparr>) (Inr [])"

text \<open>A client whose every generation call fails.\<close>

definition failingClient :: "nat deps" where
  "failingClient = double (\<lambda>req n. Inl (Error ''503 service unavailable'')) (Inr [])"

text \<open>
  The client of the second end-to-end scenario: three models listed, \<open>A\<close> and \<open>C\<close>
  capable. \<open>A\<close> draws an image, \<open>C\<close> is rejected, any other model answers in words.
\<close>

definition threeModels :: "Model list" where
  "threeModels =
     [\<lparr>name = ''models/A'', supportedGenerationMethods = [''generateContent'', ''countTokens'']\<rparr>,
      \<lparr>name = ''models/B'', supportedGenerationMethods = [''embedContent'']\<rparr>,
      \<lparr>name = ''models/C'', supportedGenerationMethods = [''generateContent'']\<rparr>]"

definition probedClient :: "nat deps" where
  "probedClient =
     double (\<lambda>req n. if req_model req = ''models/A''
                      then Inr (partsResponse None [imagePart ''image/png'' ''WA==''])
                      else if req_model req = ''models/C'' then Inl (Error ''404 not found'')
                      else Inr (textResponse ''A blue circle.''))
            (Inr threeModels)"


text \<open>A client whose listing call throws a value that is not an \<open>Error\<close>.\<close>

definition oddListingClient :: "nat deps" where
  "oddListingClient = double (\<lambda>req n. Inr (textResponse ''A blue circle.'')) (Inl NonError)"

definition planFile :: File where
  "planFile = \<lparr>file_type = ''image/png'', file_bytes = ''cGxhbg==''\<rparr>"

definition refFile :: File where
  "refFile = \<lparr>file_type = ''image/jpeg'', file_bytes = ''cmVm''\<rparr>"

definition bothUploaded :: AppState where
  "bothUploaded =
     \<lparr>floorPlanImage = Some planFile, referenceImage = Some refFile,
      generatedImage = Some ''data:image/png;base64,b2xk'', loadingStep = idle,
      app_error = None\<rparr>"

lemmas double_defs =
  stagedClient_def double_def textResponse_def imagePart_def partsResponse_def textPart_def
  renderResponse_def chattyResponse_def planFile_def refFile_def

section \<open>Auxiliary facts\<close>

lemma extractImage_firstInline: "extractImage ps = map_option dataUri (firstInline ps)"
  by (induction ps) (auto simp: firstInline_def split: option.splits)

lemma failure_has_no_result:
  assumes "generateVirtualStaging d fp ref w = (Inl err, tr, w')"
  shows "\<forall>u. OnResult u \<notin> set tr"
  using assms
  by (auto simp: generateVirtualStaging_def Let_def
      split: prod.splits sum.splits option.splits if_splits)

lemma failure_origin:
  assumes "generateVirtualStaging d fp ref w = (Inl err, tr, w')"
  shows "err \<in> {StyleExtractionFailed, PlanAnalysisFailed, NoImageProduced}
         \<or> (\<exists>req wa wb. generateContent d req wa = (Inl err, wb))"
  using assms
  unfolding generateVirtualStaging_def Let_def StyleExtractionFailed_def PlanAnalysisFailed_def
    NoImageProduced_def
  by (auto split: prod.splits sum.splits option.splits if_splits)

lemma consume_only_steps:
  "\<forall>u. OnResult u \<notin> set tr \<Longrightarrow>
     (foldl consume s tr)\<lparr>app_error := e, loadingStep := x\<rparr> = s\<lparr>app_error := e, loadingStep := x\<rparr>"
proof (induction tr arbitrary: s)
  case Nil
  then show ?case by simp
next
  case (Cons ev tr)
  then show ?case by (cases ev) auto
qed

lemma handleGenerate_failure:
  assumes "floorPlanImage s = Some fp" and "referenceImage s = Some ref"
    and "generateVirtualStaging d fp ref w = (Inl err, tr, w')"
  shows "handleGenerate d s w =
           (s\<lparr>app_error := Some (messageOr ''An unknown error occurred.'' err),
              generatedImage := None, loadingStep := idle\<rparr>, tr, w')"
proof -
  have "\<forall>u. OnResult u \<notin> set tr" using assms(3) by (rule failure_has_no_result)
  with assms show ?thesis by (simp add: handleGenerate_def consume_only_steps)
qed

lemma pushNames_filter:
  "pushNames ms acc = acc @ map name (filter advertisesGenerateContent ms)"
  by (induction ms arbitrary: acc) (simp_all add: advertisesGenerateContent_def)


lemma probe_trace: "fst (snd (testImageGenerationModel d m w)) = [GenerateContent (probeRequest m)]"
  by (simp add: testImageGenerationModel_def Let_def split: prod.splits sum.splits)


lemma probeEach_trace:
  "fst (snd (probeEach d ms results tr w)) = tr @ map (\<lambda>m. GenerateContent (probeRequest m)) ms"
proof (induction ms arbitrary: results tr w)
  case Nil
  then show ?case by simp
next
  case (Cons m ms)
  obtain r t w' where p: "testImageGenerationModel d m w = (r, t, w')"
    by (cases "testImageGenerationModel d m w") auto
  with probe_trace[of d m w] have "t = [GenerateContent (probeRequest m)]" by simp
  with p Cons show ?case by simp
qed



text \<open>
  What \<open>listAvailableModels\<close> returns when the listing call returns or throws an
  \<open>Error\<close>; its result is never empty.
\<close>

lemma listAvailableModels_listed:
  "fst (listAvailableModels d w) \<noteq> []
   \<and> (\<forall>ms. fst (models_list d w) = Inr ms \<longrightarrow>
         fst (listAvailableModels d w) =
           (if filter advertisesGenerateContent ms = []
            then [''No models supporting 'generateContent' found for your API key.'']
            else map name (filter advertisesGenerateContent ms)))
   \<and> (\<forall>m. fst (models_list d w) = Inl (Error m) \<longrightarrow>
         fst (listAvailableModels d w) = [''Error listing models: '' @ m])"
  by (auto simp: listAvailableModels_def Let_def pushNames_filter
      split: prod.splits sum.splits thrown.splits)

section \<open>The orchestrator\<close>

text \<open>
  Claim C1. When both images are supplied and the three generation calls succeed (the first
  two answer a non-empty text, the third a part with inline data), the run calls
  \<open>setLoadingStep\<close> with \<open>analyzingStyle\<close>, \<open>analyzingPlan\<close>, \<open>generatingImage\<close>, in
  that order and nothing else, each right before the request of its stage, and all three
  before \<open>onResult\<close> delivers the image.
\<close>

theorem staging_success_trace:
  assumes "generateContent d (styleRequest d referenceImageFile) w0 = (Inr r1, w1)"
    and "response_text r1 = Some styleDescription" and "styleDescription \<noteq> []"
    and "generateContent d (floorPlanRequest d floorPlanFile) w1 = (Inr r2, w2)"
    and "response_text r2 = Some floorPlanAnalysis" and "floorPlanAnalysis \<noteq> []"
    and "generateContent d (finalRequest d floorPlanFile styleDescription floorPlanAnalysis) w2
           = (Inr r3, w3)"
    and "firstInline (partsOrEmpty r3) = Some b"
  shows "generateVirtualStaging d floorPlanFile referenceImageFile w0 =
           (Inr (),
            [SetLoadingStep analyzingStyle,
             GenerateContent (styleRequest d referenceImageFile),
             SetLoadingStep analyzingPlan,
             GenerateContent (floorPlanRequest d floorPlanFile),
             SetLoadingStep generatingImage,
             GenerateContent (finalRequest d floorPlanFile styleDescription floorPlanAnalysis),
             OnResult (dataUri b)],
            w3)"
  using assms
  by (simp add: generateVirtualStaging_def Let_def falsy_def extractImage_firstInline)

text \<open>
  The first end-to-end scenario of the specification: the trace of the run, and the three
  calls made (the world counts them).
\<close>

theorem staging_success_trace_witness:
  "generateVirtualStaging renderingClient planFile refFile 0 =
     (Inr (),
      [SetLoadingStep analyzingStyle,
       GenerateContent (styleRequest renderingClient refFile),
       SetLoadingStep analyzingPlan,
       GenerateContent (floorPlanRequest renderingClient planFile),
       SetLoadingStep generatingImage,
       GenerateContent
         (finalRequest renderingClient planFile ''minimalist, oak floors'' ''2-bedroom, L-shaped''),
       OnResult ''data:image/png;base64,WA==''],
      3)"
  using staging_success_trace
    [of renderingClient refFile 0
        "textResponse ''minimalist, oak floors''" 1 "''minimalist, oak floors''"
        planFile "textResponse ''2-bedroom, L-shaped''" 2 "''2-bedroom, L-shaped''"
        renderResponse 3 "\<lparr>data = ''WA=='', mimeType = ''image/png''\<rparr>"]
  by (simp add: renderingClient_def double_defs firstInline_def partsOrEmpty_def
      candidateParts_def dataUri_def)

text \<open>
  Claim C2. When the floor-plan image or the reference image is missing, \<open>handleGenerate\<close>
  ends at once with the message of the missing input as its error: no step is set, no
  request is sent (the trace is empty and the world is unchanged), and nothing else of the
  state changes.
\<close>

theorem missing_image_fails_at_once:
  assumes "floorPlanImage s = None \<or> referenceImage s = None"
  shows "handleGenerate d s w = (s\<lparr>app_error := Some InputMissing\<rparr>, [], w)"
  using assms
  by (auto simp: handleGenerate_def InputMissing_def split: option.splits)

theorem missing_image_fails_at_once_witness:
  "handleGenerate failingClient (bothUploaded\<lparr>referenceImage := None\<rparr>) 0 =
     (bothUploaded\<lparr>referenceImage := None,
                   app_error := Some ''Please upload both a floor plan and a reference image.''\<rparr>,
      [], 0)"
  using missing_image_fails_at_once [of "bothUploaded\<lparr>referenceImage := None\<rparr>" failingClient 0]
  by (simp add: InputMissing_def)

text \<open>
  Claim C3. Once the first two stages have produced their texts, the answer of the third
  request decides the run: if some part of it carries inline data, \<open>onResult\<close> receives
  \<open>data:<mimeType>;base64,<data>\<close> of the first such part and the run returns; if none
  does, the run fails with \<open>NoImageProduced\<close>, whatever the text of the response is.
\<close>

theorem stage3_image_or_failure:
  assumes "generateContent d (styleRequest d referenceImageFile) w0 = (Inr r1, w1)"
    and "response_text r1 = Some styleDescription" and "styleDescription \<noteq> []"
    and "generateContent d (floorPlanRequest d floorPlanFile) w1 = (Inr r2, w2)"
    and "response_text r2 = Some floorPlanAnalysis" and "floorPlanAnalysis \<noteq> []"
    and "generateContent d (finalRequest d floorPlanFile styleDescription floorPlanAnalysis) w2
           = (Inr r3, w3)"
  shows "generateVirtualStaging d floorPlanFile referenceImageFile w0 =
           (case firstInline (partsOrEmpty r3) of
              Some b \<Rightarrow>
                (Inr (),
                 [SetLoadingStep analyzingStyle,
                  GenerateContent (styleRequest d referenceImageFile),
                  SetLoadingStep analyzingPlan,
                  GenerateContent (floorPlanRequest d floorPlanFile),
                  SetLoadingStep generatingImage,
                  GenerateContent (finalRequest d floorPlanFile styleDescription floorPlanAnalysis),
                  OnResult (''data:'' @ mimeType b @ '';base64,'' @ data b)],
                 w3)
            | None \<Rightarrow>
                (Inl NoImageProduced,
                 [SetLoadingStep analyzingStyle,
                  GenerateContent (styleRequest d referenceImageFile),
                  SetLoadingStep analyzingPlan,
                  GenerateContent (floorPlanRequest d floorPlanFile),
                  SetLoadingStep generatingImage,
                  GenerateContent (finalRequest d floorPlanFile styleDescription floorPlanAnalysis)],
                 w3))"
  using assms
  by (simp add: generateVirtualStaging_def Let_def falsy_def extractImage_firstInline
      NoImageProduced_def dataUri_def split: option.splits)

text \<open>
  A response with a text part and two images resolves to the first image; a response that
  only has text fails.
\<close>

theorem stage3_image_or_failure_witness:
  "(\<exists>tr. generateVirtualStaging chattyClient planFile refFile 0 = (Inr (), tr, 3)
          \<and> last tr = OnResult ''data:image/png;base64,WA=='')
   \<and> fst (generateVirtualStaging refusingClient planFile refFile 0) =
       Inl (Error ''No image was generated. The model may have refused the request.'')"
  using stage3_image_or_failure
    [of chattyClient refFile 0
        "textResponse ''minimalist, oak floors''" 1 "''minimalist, oak floors''"
        planFile "textResponse ''2-bedroom, L-shaped''" 2 "''2-bedroom, L-shaped''"
        chattyResponse 3]
    stage3_image_or_failure
    [of refusingClient refFile 0
        "textResponse ''minimalist, oak floors''" 1 "''minimalist, oak floors''"
        planFile "textResponse ''2-bedroom, L-shaped''" 2 "''2-bedroom, L-shaped''"
        "textResponse ''I cannot draw this.''" 3]
  by (simp add: chattyClient_def refusingClient_def double_defs firstInline_def partsOrEmpty_def
      candidateParts_def NoImageProduced_def)

text \<open>
  Claim C4. Whenever the run fails, \<open>handleGenerate\<close> ends with the state it was
  called in, except that the step is \<open>idle\<close>, the image is cleared and the error shown is
  the message of the error raised (a fixed text for a thrown value that is not an
  \<open>Error\<close>); \<open>onResult\<close> was never called. Step by step: a generation call that throws
  at stage 1, 2 or 3 fails the run with that very value, after the requests sent so far and
  in the world the call left; an empty or absent text at stage 1 or 2 and a third response
  without inline data fail it with \<open>StyleExtractionFailed\<close>, \<open>PlanAnalysisFailed\<close> and
  \<open>NoImageProduced\<close>; no later request is sent.
\<close>

theorem failure_resets_and_surfaces:
  assumes "floorPlanImage s = Some floorPlanFile" and "referenceImage s = Some referenceImageFile"
  shows
    "(\<forall>err tr w'.
        generateVirtualStaging d floorPlanFile referenceImageFile w = (Inl err, tr, w') \<longrightarrow>
        handleGenerate d s w =
          (s\<lparr>app_error := Some (messageOr ''An unknown error occurred.'' err),
             generatedImage := None, loadingStep := idle\<rparr>, tr, w')
        \<and> (\<forall>u. OnResult u \<notin> set tr)
        \<and> (err \<in> {StyleExtractionFailed, PlanAnalysisFailed, NoImageProduced}
             \<or> (\<exists>req wa wb. generateContent d req wa = (Inl err, wb))))
     \<and> (\<forall>err w1.
          generateContent d (styleRequest d referenceImageFile) w = (Inl err, w1) \<longrightarrow>
          generateVirtualStaging d floorPlanFile referenceImageFile w =
            (Inl err,
             [SetLoadingStep analyzingStyle, GenerateContent (styleRequest d referenceImageFile)],
             w1))
     \<and> (\<forall>r1 w1.
          generateContent d (styleRequest d referenceImageFile) w = (Inr r1, w1) \<longrightarrow>
          falsy (response_text r1) \<longrightarrow>
          generateVirtualStaging d floorPlanFile referenceImageFile w =
            (Inl StyleExtractionFailed,
             [SetLoadingStep analyzingStyle, GenerateContent (styleRequest d referenceImageFile)],
             w1))
     \<and> (\<forall>r1 w1 err w2.
          generateContent d (styleRequest d referenceImageFile) w = (Inr r1, w1) \<longrightarrow>
          \<not> falsy (response_text r1) \<longrightarrow>
          generateContent d (floorPlanRequest d floorPlanFile) w1 = (Inl err, w2) \<longrightarrow>
          generateVirtualStaging d floorPlanFile referenceImageFile w =
            (Inl err,
             [SetLoadingStep analyzingStyle, GenerateContent (styleRequest d referenceImageFile),
              SetLoadingStep analyzingPlan, GenerateContent (floorPlanRequest d floorPlanFile)],
             w2))
     \<and> (\<forall>r1 w1 r2 w2.
          generateContent d (styleRequest d referenceImageFile) w = (Inr r1, w1) \<longrightarrow>
          \<not> falsy (response_text r1) \<longrightarrow>
          generateContent d (floorPlanRequest d floorPlanFile) w1 = (Inr r2, w2) \<longrightarrow>
          falsy (response_text r2) \<longrightarrow>
          generateVirtualStaging d floorPlanFile referenceImageFile w =
            (Inl PlanAnalysisFailed,
             [SetLoadingStep analyzingStyle, GenerateContent (styleRequest d referenceImageFile),
              SetLoadingStep analyzingPlan, GenerateContent (floorPlanRequest d floorPlanFile)],
             w2))
     \<and> (\<forall>r1 w1 styleDescription r2 w2 floorPlanAnalysis err w3.
          generateContent d (styleRequest d referenceImageFile) w = (Inr r1, w1) \<longrightarrow>
          response_text r1 = Some styleDescription \<longrightarrow> styleDescription \<noteq> [] \<longrightarrow>
          generateContent d (floorPlanRequest d floorPlanFile) w1 = (Inr r2, w2) \<longrightarrow>
          response_text r2 = Some floorPlanAnalysis \<longrightarrow> floorPlanAnalysis \<noteq> [] \<longrightarrow>
          generateContent d
            (finalRequest d floorPlanFile styleDescription floorPlanAnalysis) w2 = (Inl err, w3) \<longrightarrow>
          generateVirtualStaging d floorPlanFile referenceImageFile w =
            (Inl err,
             [SetLoadingStep analyzingStyle, GenerateContent (styleRequest d referenceImageFile),
              SetLoadingStep analyzingPlan, GenerateContent (floorPlanRequest d floorPlanFile),
              SetLoadingStep generatingImage,
              GenerateContent (finalRequest d floorPlanFile styleDescription floorPlanAnalysis)],
             w3))
     \<and> (\<forall>r1 w1 styleDescription r2 w2 floorPlanAnalysis r3 w3.
          generateContent d (styleRequest d referenceImageFile) w = (Inr r1, w1) \<longrightarrow>
          response_text r1 = Some styleDescription \<longrightarrow> styleDescription \<noteq> [] \<longrightarrow>
          generateContent d (floorPlanRequest d floorPlanFile) w1 = (Inr r2, w2) \<longrightarrow>
          response_text r2 = Some floorPlanAnalysis \<longrightarrow> floorPlanAnalysis \<noteq> [] \<longrightarrow>
          generateContent d
            (finalRequest d floorPlanFile styleDescription floorPlanAnalysis) w2 = (Inr r3, w3) \<longrightarrow>
          firstInline (partsOrEmpty r3) = None \<longrightarrow>
          generateVirtualStaging d floorPlanFile referenceImageFile w =
            (Inl NoImageProduced,
             [SetLoadingStep analyzingStyle, GenerateContent (styleRequest d referenceImageFile),
              SetLoadingStep analyzingPlan, GenerateContent (floorPlanRequest d floorPlanFile),
              SetLoadingStep generatingImage,
              GenerateContent (finalRequest d floorPlanFile styleDescription floorPlanAnalysis)],
             w3))"
proof -
  have general: "\<forall>err tr w'.
        generateVirtualStaging d floorPlanFile referenceImageFile w = (Inl err, tr, w') \<longrightarrow>
        handleGenerate d s w =
          (s\<lparr>app_error := Some (messageOr ''An unknown error occurred.'' err),
             generatedImage := None, loadingStep := idle\<rparr>, tr, w')
        \<and> (\<forall>u. OnResult u \<notin> set tr)
        \<and> (err \<in> {StyleExtractionFailed, PlanAnalysisFailed, NoImageProduced}
             \<or> (\<exists>req wa wb. generateContent d req wa = (Inl err, wb)))"
  proof (intro allI impI)
    fix err tr w'
    assume run: "generateVirtualStaging d floorPlanFile referenceImageFile w = (Inl err, tr, w')"
    from handleGenerate_failure[OF assms run] failure_has_no_result[OF run] failure_origin[OF run]
    show "handleGenerate d s w =
          (s\<lparr>app_error := Some (messageOr ''An unknown error occurred.'' err),
             generatedImage := None, loadingStep := idle\<rparr>, tr, w')
        \<and> (\<forall>u. OnResult u \<notin> set tr)
        \<and> (err \<in> {StyleExtractionFailed, PlanAnalysisFailed, NoImageProduced}
             \<or> (\<exists>req wa wb. generateContent d req wa = (Inl err, wb)))"
      by (intro conjI)
  qed
  show ?thesis
    by (rule conjI[OF general])
       (simp add: generateVirtualStaging_def Let_def falsy_def StyleExtractionFailed_def
          PlanAnalysisFailed_def NoImageProduced_def extractImage_firstInline)
qed

text \<open>
  The service rejects the first call, the second call, the third call: each time the
  rejection itself ends the run, and the earlier render is gone too.
\<close>

theorem failure_resets_and_surfaces_witness:
  "generateVirtualStaging failingClient planFile refFile 0 =
     (Inl (Error ''503 service unavailable''),
      [SetLoadingStep analyzingStyle, GenerateContent (styleRequest failingClient refFile)], 1)
   \<and> handleGenerate failingClient bothUploaded 0 =
     (bothUploaded\<lparr>app_error := Some ''503 service unavailable'',
                   generatedImage := None, loadingStep := idle\<rparr>,
      [SetLoadingStep analyzingStyle, GenerateContent (styleRequest failingClient refFile)], 1)
   \<and> generateVirtualStaging throttledClient planFile refFile 1 =
     (Inl (Error ''429 quota exceeded''),
      [SetLoadingStep analyzingStyle, GenerateContent (styleRequest throttledClient refFile),
       SetLoadingStep analyzingPlan, GenerateContent (floorPlanRequest throttledClient planFile)], 3)
   \<and> generateVirtualStaging throttledClient planFile refFile 0 =
     (Inl (Error ''429 quota exceeded''),
      [SetLoadingStep analyzingStyle, GenerateContent (styleRequest throttledClient refFile),
       SetLoadingStep analyzingPlan, GenerateContent (floorPlanRequest throttledClient planFile),
       SetLoadingStep generatingImage,
       GenerateContent
         (finalRequest throttledClient planFile ''minimalist, oak floors'' ''2-bedroom, L-shaped'')], 3)
   \<and> handleGenerate throttledClient bothUploaded 0 =
     (bothUploaded\<lparr>app_error := Some ''429 quota exceeded'',
                   generatedImage := None, loadingStep := idle\<rparr>,
      [SetLoadingStep analyzingStyle, GenerateContent (styleRequest throttledClient refFile),
       SetLoadingStep analyzingPlan, GenerateContent (floorPlanRequest throttledClient planFile),
       SetLoadingStep generatingImage,
       GenerateContent
         (finalRequest throttledClient planFile ''minimalist, oak floors'' ''2-bedroom, L-shaped'')], 3)"
proof -
  have up: "floorPlanImage bothUploaded = Some planFile" "referenceImage bothUploaded = Some refFile"
    by (simp_all add: bothUploaded_def)
  note f = failure_resets_and_surfaces [OF up, of failingClient 0]
  note t1 = failure_resets_and_surfaces [OF up, of throttledClient 1]
  note t0 = failure_resets_and_surfaces [OF up, of throttledClient 0]
  have c1: "generateContent failingClient (styleRequest failingClient refFile) 0 =
              (Inl (Error ''503 service unavailable''), 1)"
    by (simp add: failingClient_def double_def)
  note a = f [THEN conjunct2, THEN conjunct1, rule_format, OF c1]
  note a' = f [THEN conjunct1, rule_format, OF a, THEN conjunct1]
  have c2: "generateContent throttledClient (styleRequest throttledClient refFile) 1 =
              (Inr (textResponse ''2-bedroom, L-shaped''), 2)"
      "\<not> falsy (response_text (textResponse ''2-bedroom, L-shaped''))"
      "generateContent throttledClient (floorPlanRequest throttledClient planFile) 2 =
              (Inl (Error ''429 quota exceeded''), 3)"
    by (simp_all add: throttledClient_def double_defs falsy_def)
  note b = t1 [THEN conjunct2, THEN conjunct2, THEN conjunct2, THEN conjunct1, rule_format, OF c2]
  have c3: "generateContent throttledClient (styleRequest throttledClient refFile) 0 =
              (Inr (textResponse ''minimalist, oak floors''), 1)"
      "response_text (textResponse ''minimalist, oak floors'') = Some ''minimalist, oak floors''"
      "''minimalist, oak floors'' \<noteq> []"
      "generateContent throttledClient (floorPlanRequest throttledClient planFile) 1 =
              (Inr (textResponse ''2-bedroom, L-shaped''), 2)"
      "response_text (textResponse ''2-bedroom, L-shaped'') = Some ''2-bedroom, L-shaped''"
      "''2-bedroom, L-shaped'' \<noteq> []"
      "generateContent throttledClient
         (finalRequest throttledClient planFile ''minimalist, oak floors'' ''2-bedroom, L-shaped'') 2 =
              (Inl (Error ''429 quota exceeded''), 3)"
    by (simp_all add: throttledClient_def double_defs)
  note c = t0 [THEN conjunct2, THEN conjunct2, THEN conjunct2, THEN conjunct2, THEN conjunct2,
               THEN conjunct1, rule_format, OF c3]
  note c' = t0 [THEN conjunct1, rule_format, OF c, THEN conjunct1]
  from a a' b c c' show ?thesis
    unfolding messageOr_def thrown.case by (intro conjI)
qed

text \<open>
  Claim C5. When the first generation call answers an empty or absent text, the run fails
  with \<open>StyleExtractionFailed\<close> after that one request: the request of the second stage
  is never sent. A run that succeeds has sent exactly three.
\<close>

theorem empty_style_stops_after_one_call:
  "(generateContent d (styleRequest d referenceImageFile) w0 = (Inr r1, w1)
      \<and> falsy (response_text r1)
    \<longrightarrow> generateVirtualStaging d floorPlanFile referenceImageFile w0 =
          (Inl StyleExtractionFailed,
           [SetLoadingStep analyzingStyle, GenerateContent (styleRequest d referenceImageFile)],
           w1)
        \<and> generationCalls (fst (snd (generateVirtualStaging d floorPlanFile referenceImageFile w0))) = 1)
   \<and> (fst (generateVirtualStaging d floorPlanFile referenceImageFile w0) = Inr ()
    \<longrightarrow> generationCalls (fst (snd (generateVirtualStaging d floorPlanFile referenceImageFile w0))) = 3)"
  by (auto simp: generateVirtualStaging_def Let_def StyleExtractionFailed_def generationCalls_def
      split: prod.splits sum.splits option.splits if_splits)

theorem empty_style_stops_after_one_call_witness:
  "generateVirtualStaging silentClient planFile refFile 0 =
     (Inl (Error ''Could not extract style from reference image.''),
      [SetLoadingStep analyzingStyle, GenerateContent (styleRequest silentClient refFile)], 1)
   \<and> generationCalls (fst (snd (generateVirtualStaging silentClient planFile refFile 0))) = 1
   \<and> generationCalls (fst (snd (generateVirtualStaging renderingClient planFile refFile 0))) = 3"
proof -
  have c: "generateContent silentClient (styleRequest silentClient refFile) 0 =
             (Inr \<lparr>response_text = Some [], candidates = None\<rparr>, 1)"
    by (simp add: silentClient_def double_def)
  have f: "falsy (response_text \<lparr>response_text = Some [], candidates = None\<rparr>)"
    by (simp add: falsy_def)
  have ok: "fst (generateVirtualStaging renderingClient planFile refFile 0) = Inr ()"
    by (simp add: generateVirtualStaging_def renderingClient_def double_defs falsy_def
        partsOrEmpty_def candidateParts_def)
  from empty_style_stops_after_one_call
         [of silentClient refFile 0 "\<lparr>response_text = Some [], candidates = None\<rparr>" 1 planFile] c f
  have one: "generateVirtualStaging silentClient planFile refFile 0 =
     (Inl StyleExtractionFailed,
      [SetLoadingStep analyzingStyle, GenerateContent (styleRequest silentClient refFile)], 1)
     \<and> generationCalls (fst (snd (generateVirtualStaging silentClient planFile refFile 0))) = 1"
    by blast
  from empty_style_stops_after_one_call
         [of renderingClient refFile 0 "\<lparr>response_text = Some [], candidates = None\<rparr>" 1 planFile] ok
  have three: "generationCalls (fst (snd (generateVirtualStaging renderingClient planFile refFile 0))) = 3"
    by blast
  from one three show ?thesis
    unfolding StyleExtractionFailed_def by blast
qed

section \<open>The prober\<close>




text \<open>
  Claim C7. \<open>testImageGenerationModel\<close> always returns a result, after exactly one
  request: the result names the model and has its response time set; when the generation
  call throws, the result is negative and records the message of the error (a fixed text
  for a thrown value that is not an \<open>Error\<close>).
\<close>

theorem probe_never_raises:
  "snd (testImageGenerationModel d m w) =
     ([GenerateContent (probeRequest m)], snd (generateContent d (probeRequest m) w))
   \<and> modelName (fst (testImageGenerationModel d m w)) = m
   \<and> responseTime (fst (testImageGenerationModel d m w)) =
       Some (Date_now d (snd (generateContent d (probeRequest m) w)) - Date_now d w)
   \<and> (\<forall>err. fst (generateContent d (probeRequest m) w) = Inl err \<longrightarrow>
         \<not> supportsImageGeneration (fst (testImageGenerationModel d m w))
         \<and> error (fst (testImageGenerationModel d m w)) = Some (messageOr ''Unknown error'' err))"
  by (auto simp: testImageGenerationModel_def Let_def split: prod.splits sum.splits)

theorem probe_never_raises_witness:
  "\<not> supportsImageGeneration (fst (testImageGenerationModel failingClient ''models/A'' 3))
   \<and> error (fst (testImageGenerationModel failingClient ''models/A'' 3))
       = Some ''503 service unavailable''
   \<and> responseTime (fst (testImageGenerationModel failingClient ''models/A'' 3)) = Some 700
   \<and> snd (testImageGenerationModel failingClient ''models/A'' 3)
       = ([GenerateContent (probeRequest ''models/A'')], 4)"
  using probe_never_raises [of failingClient "''models/A''" 3]
  by (simp add: failingClient_def double_def messageOr_def)

text \<open>
  Claim C8: a failing listing call is answered by a single diagnostic that begins with
  \<open>Error\<close>. The code misses it when the listing call throws a value that is not an
  \<open>Error\<close>: the diagnostic returned then does not begin with \<open>Error\<close>, the filter of
  \<open>testAllModelsForImageGeneration\<close> takes it for a model, and it is probed.
\<close>

theorem unknown_listing_failure_not_prefixed:
  "fst (models_list oddListingClient 0) = Inl NonError
   \<and> fst (listAvailableModels oddListingClient 0) =
       [''An unknown error occurred while listing models.'']
   \<and> \<not> startsWith ''An unknown error occurred while listing models.'' ''Error''
   \<and> isValidModel ''An unknown error occurred while listing models.''
   \<and> fst (snd (testAllModelsForImageGeneration oddListingClient 0)) =
       [ListModels, GenerateContent (probeRequest ''An unknown error occurred while listing models.'')]"
  by (simp add: oddListingClient_def double_def listAvailableModels_def startsWith_def
      isValidModel_def testAllModelsForImageGeneration_def testImageGenerationModel_def
      textResponse_def hasImage_def candidateParts_def textPart_def)

text \<open>
  Claim C9. In every result of \<open>testImageGenerationModel\<close> the error is set exactly when
  \<open>supportsImageGeneration\<close> is false.
\<close>

theorem probe_error_iff_negative:
  "(error (fst (testImageGenerationModel d m w)) \<noteq> None)
     = (\<not> supportsImageGeneration (fst (testImageGenerationModel d m w)))"
  by (simp add: testImageGenerationModel_def Let_def split: prod.splits sum.splits)

theorem probe_error_iff_negative_witness:
  "supportsImageGeneration (fst (testImageGenerationModel probedClient ''models/A'' 0))
   \<and> error (fst (testImageGenerationModel probedClient ''models/A'' 0)) = None
   \<and> \<not> supportsImageGeneration (fst (testImageGenerationModel probedClient ''models/B'' 0))
   \<and> error (fst (testImageGenerationModel probedClient ''models/B'' 0))
       = Some ''Model responded but did not generate an image''"
proof -
  have a: "supportsImageGeneration (fst (testImageGenerationModel probedClient ''models/A'' 0))"
    by (simp add: testImageGenerationModel_def probedClient_def double_defs probeRequest_def
        hasImage_def candidateParts_def)
  have b: "error (fst (testImageGenerationModel probedClient ''models/B'' 0))
             = Some ''Model responded but did not generate an image''"
    by (simp add: testImageGenerationModel_def probedClient_def double_defs probeRequest_def
        hasImage_def candidateParts_def)
  from a b probe_error_iff_negative [of probedClient "''models/A''" 0]
    probe_error_iff_negative [of probedClient "''models/B''" 0]
  show ?thesis by simp
qed

text \<open>
  Claim C10. Against a client whose answer to the probe request of a model does not depend
  on the state of the world, two probes of that model, whenever they are made, agree on
  \<open>supportsImageGeneration\<close> and on the error.
\<close>

theorem probe_twice_same_verdict:
  assumes "\<And>wa wb. fst (generateContent d (probeRequest m) wa)
                     = fst (generateContent d (probeRequest m) wb)"
  shows "supportsImageGeneration (fst (testImageGenerationModel d m w))
           = supportsImageGeneration (fst (testImageGenerationModel d m w'))
       \<and> error (fst (testImageGenerationModel d m w)) = error (fst (testImageGenerationModel d m w'))"
  using assms[of w w']
  by (auto simp: testImageGenerationModel_def Let_def split: prod.splits sum.splits)

text \<open>Two probes in a row: the same verdict, different response times.\<close>

theorem probe_twice_same_verdict_witness:
  "snd (snd (testImageGenerationModel probedClient ''models/C'' 0)) = 1
   \<and> supportsImageGeneration (fst (testImageGenerationModel probedClient ''models/C'' 0))
       = supportsImageGeneration (fst (testImageGenerationModel probedClient ''models/C'' 1))
   \<and> error (fst (testImageGenerationModel probedClient ''models/C'' 0))
       = error (fst (testImageGenerationModel probedClient ''models/C'' 1))
   \<and> responseTime (fst (testImageGenerationModel probedClient ''models/C'' 0)) = Some 100
   \<and> responseTime (fst (testImageGenerationModel probedClient ''models/C'' 1)) = Some 300"
proof -
  have det: "\<And>wa wb. fst (generateContent probedClient (probeRequest ''models/C'') wa)
                       = fst (generateContent probedClient (probeRequest ''models/C'') wb)"
    by (simp add: probedClient_def double_def)
  have t: "snd (snd (testImageGenerationModel probedClient ''models/C'' 0)) = 1"
      "responseTime (fst (testImageGenerationModel probedClient ''models/C'' 0)) = Some 100"
      "responseTime (fst (testImageGenerationModel probedClient ''models/C'' 1)) = Some 300"
    by (simp_all add: testImageGenerationModel_def probedClient_def double_defs probeRequest_def)
  from probe_twice_same_verdict [of probedClient "''models/C''" 0 1, OF det] t
  show ?thesis by simp
qed

end
